theory Spec2Isabelle
  imports Complex_Main "HOL-Library.Sublist"
begin

section \<open>Python values\<close>

text \<open>
  A Python \<open>str\<close> is a sequence of Unicode code points, so it is modelled as a list of
  natural numbers (the recognised text is Japanese as often as English). ASCII literals are
  written through \<open>ascii\<close>.

  Confidences reach the code as Python numbers (\<open>int\<close> or \<open>float\<close>); every finite one
  is a rational, so they are modelled as \<open>rat\<close>, with \<open>float(c)\<close> the identity and
  \<open>int(c)\<close> truncation toward zero. NaN and the infinities are outside the model, and
  float arithmetic is taken as exact.
\<close>

type_synonym pystr = "nat list"

definition ascii :: "string \<Rightarrow> pystr" where
  "ascii s = map of_char s"

text \<open>\<open>int(x)\<close> on a number: truncation toward zero.\<close>

definition py_int :: "rat \<Rightarrow> int" where
  "py_int x = (if 0 \<le> x then \<lfloor>x\<rfloor> else \<lceil>x\<rceil>)"

text \<open>
  The code points for which \<open>str.isspace\<close> holds; \<open>str.strip()\<close> without argument
  removes them from both ends.
\<close>

definition is_space :: "nat \<Rightarrow> bool" where
  "is_space c \<longleftrightarrow>
     (9 \<le> c \<and> c \<le> 13) \<or> (28 \<le> c \<and> c \<le> 32) \<or> c = 133 \<or> c = 160 \<or> c = 5760 \<or>
     (8192 \<le> c \<and> c \<le> 8202) \<or> c = 8232 \<or> c = 8233 \<or> c = 8239 \<or> c = 8287 \<or> c = 12288"

definition py_strip :: "pystr \<Rightarrow> pystr" where
  "py_strip s = rev (dropWhile is_space (rev (dropWhile is_space s)))"

text \<open>\<open>sep.join(parts)\<close>.\<close>

fun py_join :: "pystr \<Rightarrow> pystr list \<Rightarrow> pystr" where
  "py_join sep [] = []"
| "py_join sep [s] = s"
| "py_join sep (s # t # ts) = s @ sep @ py_join sep (t # ts)"

text \<open>\<open>s.split(c)\<close> for a separator of one code point: never the empty list.\<close>

fun py_split :: "nat \<Rightarrow> pystr \<Rightarrow> pystr list" where
  "py_split sep [] = [[]]"
| "py_split sep (c # cs) =
     (if c = sep then [] # py_split sep cs
      else (case py_split sep cs of
              [] \<Rightarrow> [[c]]
            | w # ws \<Rightarrow> (c # w) # ws))"

subsection \<open>Fixed-point formatting\<close>

text \<open>
  \<open>format(x, '.pf')\<close> rounds the exact value of \<open>x\<close> to \<open>p\<close> decimals, ties to even, and
  prints a minus sign whenever \<open>x\<close> is negative (also when it rounds to zero).
\<close>

definition round_half_even :: "rat \<Rightarrow> nat" where
  "round_half_even q =
     (let f = \<lfloor>q\<rfloor>; r = q - of_int f
      in nat (if r < 1 / 2 then f else if 1 / 2 < r then f + 1 else if even f then f else f + 1))"

fun digits :: "nat \<Rightarrow> pystr" where
  "digits n = (if n < 10 then [48 + n] else digits (n div 10) @ [48 + n mod 10])"

declare digits.simps [simp del]

fun frac_digits :: "nat \<Rightarrow> nat \<Rightarrow> pystr" where
  "frac_digits 0 m = []"
| "frac_digits (Suc k) m = frac_digits k (m div 10) @ [48 + m mod 10]"

definition py_format_f :: "nat \<Rightarrow> rat \<Rightarrow> pystr" where
  "py_format_f p x =
     (let n = round_half_even (\<bar>x\<bar> * 10 ^ p);
          body = digits (n div 10 ^ p) @
                 (if p = 0 then [] else 46 # frac_digits p (n mod 10 ^ p))
      in if x < 0 then 45 # body else body)"

subsection \<open>Exceptions and indexing\<close>

datatype exn = KeyError pystr | IndexError | ExternalError pystr

definition bind :: "exn + 'a \<Rightarrow> ('a \<Rightarrow> exn + 'b) \<Rightarrow> exn + 'b" where
  "bind r f = (case r of Inl e \<Rightarrow> Inl e | Inr v \<Rightarrow> f v)"

text \<open>\<open>xs[i]\<close> for an index taken from \<open>range(...)\<close>, hence never negative.\<close>

definition py_index :: "'a list \<Rightarrow> nat \<Rightarrow> exn + 'a" where
  "py_index xs i = (if i < length xs then Inr (xs ! i) else Inl IndexError)"

text \<open>\<open>d[k]\<close> on a dict literal, kept as an association list in source order.\<close>

definition py_lookup :: "(pystr \<times> 'v) list \<Rightarrow> pystr \<Rightarrow> exn + 'v" where
  "py_lookup d k = (case map_of d k of None \<Rightarrow> Inl (KeyError k) | Some v \<Rightarrow> Inr v)"

section \<open>config.py\<close>

definition DEFAULT_OEM_MODE :: pystr where
  "DEFAULT_OEM_MODE = ascii ''3''"

definition BBOX_COLOR_HIGH_CONF :: "nat \<times> nat \<times> nat" where
  "BBOX_COLOR_HIGH_CONF = (0, 255, 0)"

definition BBOX_COLOR_MEDIUM_CONF :: "nat \<times> nat \<times> nat" where
  "BBOX_COLOR_MEDIUM_CONF = (0, 165, 255)"

definition BBOX_COLOR_LOW_CONF :: "nat \<times> nat \<times> nat" where
  "BBOX_COLOR_LOW_CONF = (0, 0, 255)"

definition BBOX_THICKNESS :: int where
  "BBOX_THICKNESS = 2"

definition CONFIDENCE_THRESHOLD_HIGH :: rat where
  "CONFIDENCE_THRESHOLD_HIGH = 80"

definition CONFIDENCE_THRESHOLD_MEDIUM :: rat where
  "CONFIDENCE_THRESHOLD_MEDIUM = 50"

subsection \<open>String literals of the request handler and the two tables\<close>

text \<open>
  The Japanese literals are given by their code points; the comment before each one says
  what it reads.
\<close>

text \<open>The literal text of the f-string of the missing-language message up to \<open>{language}\<close>.\<close>

definition MISSING_LANG_TEXT_1 :: pystr where
  "MISSING_LANG_TEXT_1 =
     [10, 42, 42, 10060, 32, 12456, 12521, 12540, 58, 32, 35328, 35486, 12487, 12540,
      12479, 12364, 35211, 12388, 12363, 12426, 12414, 12379, 12435, 42, 42, 10, 10,
      36984, 25246, 12375, 12383, 35328, 35486, 65288]"

text \<open>Its text between \<open>{language}\<close> and the joined missing codes.\<close>

definition MISSING_LANG_TEXT_2 :: pystr where
  "MISSING_LANG_TEXT_2 =
     [65289, 12398, 12487, 12540, 12479, 12364, 12452, 12531, 12473, 12488, 12540, 12523,
      12373, 12428, 12390, 12356, 12414, 12379, 12435, 12290, 10, 10, 42, 42, 19981,
      36275, 12375, 12390, 12356, 12427, 35328, 35486, 12487, 12540, 12479, 58, 42, 42, 32]"

text \<open>Its text between the joined missing codes and \<open>{missing_langs[0]}\<close> (the install command).\<close>

definition MISSING_LANG_TEXT_3 :: pystr where
  "MISSING_LANG_TEXT_3 =
     [10, 10, 42, 42, 12452, 12531, 12473, 12488, 12540, 12523, 26041, 27861, 58, 42, 42,
      10, 96, 96, 96, 98, 97, 115, 104, 10, 35, 32, 85, 98, 117, 110, 116, 117, 47, 68,
      101, 98, 105, 97, 110, 12398, 22580, 21512, 10, 115, 117, 100, 111, 32, 97, 112,
      116, 45, 103, 101, 116, 32, 117, 112, 100, 97, 116, 101, 10, 115, 117, 100, 111,
      32, 97, 112, 116, 45, 103, 101, 116, 32, 105, 110, 115, 116, 97, 108, 108, 32, 116,
      101, 115, 115, 101, 114, 97, 99, 116, 45, 111, 99, 114, 45]"

text \<open>Its text between \<open>{missing_langs[0]}\<close> and the joined installed languages.\<close>

definition MISSING_LANG_TEXT_4 :: pystr where
  "MISSING_LANG_TEXT_4 =
     [10, 96, 96, 96, 10, 10, 42, 42, 21033, 29992, 21487, 33021, 12394, 35328, 35486,
      58, 42, 42, 32]"

text \<open>Its text after the joined installed languages.\<close>

definition MISSING_LANG_TEXT_5 :: pystr where
  "MISSING_LANG_TEXT_5 =
     [10, 10, 33521, 35486, 65288, 101, 110, 103, 65289, 12391, 12354, 12428, 12400,
      36890, 24120, 12487, 12501, 12457, 12523, 12488, 12391, 12452, 12531, 12473, 12488,
      12540, 12523, 12373, 12428, 12390, 12356, 12414, 12377, 12290, 10]"

text \<open>The prompt returned when no image was given (``please upload an image'').\<close>

definition UPLOAD_PROMPT :: pystr where
  "UPLOAD_PROMPT =
     [30011, 20687, 12434, 12450, 12483, 12503, 12525, 12540, 12489, 12375, 12390, 12367,
      12384, 12373, 12356, 12290]"

text \<open>The prefix of the generic failure message (``an error occurred: '').\<close>

definition ERROR_PREFIX :: pystr where
  "ERROR_PREFIX =
     [12456, 12521, 12540, 12364, 30330, 29983, 12375, 12414, 12375, 12383, 58, 32]"

text \<open>The placeholder for an empty recognition result (``no text was detected'').\<close>

definition NO_TEXT_DETECTED :: pystr where
  "NO_TEXT_DETECTED =
     [65288, 12486, 12461, 12473, 12488, 12364, 26908, 20986, 12373, 12428, 12414, 12379,
      12435, 12391, 12375, 12383, 65289]"

text \<open>The prefix of the confidence line (``average confidence:'').\<close>

definition AVERAGE_PREFIX :: pystr where
  "AVERAGE_PREFIX =
     [42, 42, 24179, 22343, 20449, 38972, 24230, 58, 42, 42, 32]"

text \<open>The display label of the language code \<open>jpn\<close>.\<close>

definition LABEL_JAPANESE :: pystr where
  "LABEL_JAPANESE =
     [26085, 26412, 35486]"

text \<open>The display label of the language code \<open>eng\<close>.\<close>

definition LABEL_ENGLISH :: pystr where
  "LABEL_ENGLISH =
     [33521, 35486]"

text \<open>The display label of the language code \<open>eng+jpn\<close>.\<close>

definition LABEL_ENGLISH_JAPANESE :: pystr where
  "LABEL_ENGLISH_JAPANESE =
     [33521, 35486, 43, 26085, 26412, 35486]"

text \<open>The display label of page segmentation mode \<open>3\<close>.\<close>

definition LABEL_PSM_3 :: pystr where
  "LABEL_PSM_3 =
     [51, 58, 32, 23436, 20840, 33258, 21205, 12506, 12540, 12472, 12475, 12464, 12513,
      12531, 12486, 12540, 12471, 12519, 12531, 65288, 12487, 12501, 12457, 12523, 12488,
      65289]"

text \<open>The display label of page segmentation mode \<open>6\<close>.\<close>

definition LABEL_PSM_6 :: pystr where
  "LABEL_PSM_6 =
     [54, 58, 32, 21336, 19968, 12398, 22343, 19968, 12394, 12486, 12461, 12473, 12488,
      12502, 12525, 12483, 12463]"

text \<open>The display label of page segmentation mode \<open>7\<close>.\<close>

definition LABEL_PSM_7 :: pystr where
  "LABEL_PSM_7 =
     [55, 58, 32, 21336, 19968, 12398, 12486, 12461, 12473, 12488, 34892]"

text \<open>The display label of page segmentation mode \<open>8\<close>.\<close>

definition LABEL_PSM_8 :: pystr where
  "LABEL_PSM_8 =
     [56, 58, 32, 21336, 19968, 12398, 21336, 35486]"

text \<open>The display label of page segmentation mode \<open>11\<close>.\<close>

definition LABEL_PSM_11 :: pystr where
  "LABEL_PSM_11 =
     [49, 49, 58, 32, 21487, 33021, 12394, 38480, 12426, 22810, 12367, 12398, 12486,
      12461, 12473, 12488, 12434, 26908, 20986]"

definition LANGUAGES :: "(pystr \<times> pystr) list" where
  "LANGUAGES =
     [(LABEL_JAPANESE, ascii ''jpn''),
      (LABEL_ENGLISH, ascii ''eng''),
      (LABEL_ENGLISH_JAPANESE, ascii ''eng+jpn'')]"

definition PSM_MODES :: "(pystr \<times> pystr) list" where
  "PSM_MODES =
     [(LABEL_PSM_3, ascii ''3''),
      (LABEL_PSM_6, ascii ''6''),
      (LABEL_PSM_7, ascii ''7''),
      (LABEL_PSM_8, ascii ''8''),
      (LABEL_PSM_11, ascii ''11'')]"

section \<open>utils.py: formatting\<close>

definition format_confidence :: "rat \<Rightarrow> pystr" where
  "format_confidence confidence =
     (if confidence = - 1 then ascii ''N/A''
      else py_format_f 1 confidence @ ascii ''%'')"

section \<open>ocr_engine.py: colour of a box\<close>

definition get_bbox_color :: "rat \<Rightarrow> nat \<times> nat \<times> nat" where
  "get_bbox_color confidence =
     (if confidence \<ge> CONFIDENCE_THRESHOLD_HIGH then BBOX_COLOR_HIGH_CONF
      else if confidence \<ge> CONFIDENCE_THRESHOLD_MEDIUM then BBOX_COLOR_MEDIUM_CONF
      else BBOX_COLOR_LOW_CONF)"

section \<open>The OCR data and the external libraries\<close>

text \<open>
  The engine's structured result is a dict of parallel lists; the keys the code reads are
  kept. Nothing forces the lists to have one length, so every \<open>xs[i]\<close> goes through
  \<open>py_index\<close>.
\<close>

record ocr_data =
  d_text :: "pystr list"
  d_conf :: "rat list"
  d_left :: "int list"
  d_top :: "int list"
  d_width :: "int list"
  d_height :: "int list"

text \<open>
  The OCR engine (pytesseract): its three operations, each of which may raise. The second
  and third argument of the two recognition calls are \<open>lang\<close> and \<open>config\<close>.
\<close>

record 'img engine =
  get_languages :: "exn + pystr list"
  image_to_string :: "'img \<Rightarrow> pystr \<Rightarrow> pystr \<Rightarrow> exn + pystr"
  image_to_data :: "'img \<Rightarrow> pystr \<Rightarrow> pystr \<Rightarrow> exn + ocr_data"

text \<open>The engine calls a request makes, in order.\<close>

datatype engine_call = GetLanguages | ImageToString pystr pystr | ImageToData pystr pystr

text \<open>
  The image libraries (PIL, numpy, OpenCV), over a type of PIL images and a type of pixel
  arrays. Calls that can reject an image return a sum; reshaping an array and drawing on it
  with integer coordinates do not fail. \<open>cv2_getTextSize\<close> and \<open>cv2_putText\<close> stand for
  the calls with the font, scale 0.5 and thickness 1 the code fixes; \<open>pil_contrast\<close> is
  \<open>ImageEnhance.Contrast(image).enhance(factor)\<close>, and likewise \<open>pil_sharpness\<close>.
\<close>

record ('img, 'arr) imaging =
  pil_convert :: "pystr \<Rightarrow> 'img \<Rightarrow> exn + 'img"
  pil_contrast :: "'img \<Rightarrow> rat \<Rightarrow> exn + 'img"
  pil_sharpness :: "'img \<Rightarrow> rat \<Rightarrow> exn + 'img"
  np_array :: "'img \<Rightarrow> 'arr"
  pil_fromarray :: "'arr \<Rightarrow> 'img"
  np_reverse_channels :: "'arr \<Rightarrow> 'arr"
  cv2_cvtColor_BGR2RGB :: "'arr \<Rightarrow> 'arr"
  cv2_fastNlMeansDenoisingColored :: "'arr \<Rightarrow> nat \<Rightarrow> nat \<Rightarrow> nat \<Rightarrow> nat \<Rightarrow> exn + 'arr"
  cv2_rectangle :: "'arr \<Rightarrow> int \<times> int \<Rightarrow> int \<times> int \<Rightarrow> nat \<times> nat \<times> nat \<Rightarrow> int \<Rightarrow> 'arr"
  cv2_getTextSize :: "pystr \<Rightarrow> int \<times> int"
  cv2_putText :: "'arr \<Rightarrow> pystr \<Rightarrow> int \<times> int \<Rightarrow> nat \<times> nat \<times> nat \<Rightarrow> 'arr"

section \<open>image_preprocessor.py\<close>

definition pil_to_cv2 :: "('img, 'arr) imaging \<Rightarrow> 'img \<Rightarrow> exn + 'arr" where
  "pil_to_cv2 L pil_image =
     bind (pil_convert L (ascii ''RGB'') pil_image)
       (\<lambda>rgb_image. Inr (np_reverse_channels L (np_array L rgb_image)))"

definition cv2_to_pil :: "('img, 'arr) imaging \<Rightarrow> 'arr \<Rightarrow> 'img" where
  "cv2_to_pil L cv2_image = pil_fromarray L (cv2_cvtColor_BGR2RGB L cv2_image)"

definition convert_to_grayscale :: "('img, 'arr) imaging \<Rightarrow> 'img \<Rightarrow> exn + 'img" where
  "convert_to_grayscale L img = pil_convert L (ascii ''L'') img"

definition enhance_contrast :: "('img, 'arr) imaging \<Rightarrow> 'img \<Rightarrow> rat \<Rightarrow> exn + 'img" where
  "enhance_contrast L img factor = pil_contrast L img factor"

definition enhance_sharpness :: "('img, 'arr) imaging \<Rightarrow> 'img \<Rightarrow> rat \<Rightarrow> exn + 'img" where
  "enhance_sharpness L img factor = pil_sharpness L img factor"

definition denoise_image :: "('img, 'arr) imaging \<Rightarrow> 'img \<Rightarrow> exn + 'img" where
  "denoise_image L img =
     bind (pil_to_cv2 L img)
       (\<lambda>cv2_image. bind (cv2_fastNlMeansDenoisingColored L cv2_image 10 10 7 21)
          (\<lambda>denoised. Inr (cv2_to_pil L denoised)))"

text \<open>
  \<open>image.copy()\<close> is the same image as a value, so \<open>processed_image\<close> starts as \<open>img\<close>;
  each \<open>if\<close> either rebinds it to the filter's result or leaves it.
\<close>

definition preprocess_image ::
  "('img, 'arr) imaging \<Rightarrow> 'img \<Rightarrow> bool \<Rightarrow> bool \<Rightarrow> bool \<Rightarrow> bool \<Rightarrow> rat \<Rightarrow> rat \<Rightarrow> exn + 'img" where
  "preprocess_image L img apply_grayscale apply_contrast apply_sharpness apply_denoise
       contrast_factor sharpness_factor =
     bind (if apply_denoise then denoise_image L img else Inr img)
       (\<lambda>p1. bind (if apply_contrast then enhance_contrast L p1 contrast_factor else Inr p1)
          (\<lambda>p2. bind (if apply_sharpness then enhance_sharpness L p2 sharpness_factor else Inr p2)
             (\<lambda>p3. if apply_grayscale then convert_to_grayscale L p3 else Inr p3)))"

section \<open>utils.py: the table and the average\<close>

text \<open>
  A row of the result table; its six columns are, in order, the word, the formatted
  confidence, X, Y, width and height.
\<close>

record table_row =
  r_word :: pystr
  r_confidence :: pystr
  r_x :: int
  r_y :: int
  r_width :: int
  r_height :: int

text \<open>One pass of the loop body of \<open>create_results_dataframe\<close>: \<open>None\<close> is \<open>continue\<close>.\<close>

definition results_row :: "ocr_data \<Rightarrow> nat \<Rightarrow> exn + table_row option" where
  "results_row d i =
     bind (py_index (d_text d) i)
       (\<lambda>t. let word = py_strip t
            in if word = [] then Inr None
               else bind (py_index (d_conf d) i)
                 (\<lambda>c. bind (py_index (d_left d) i)
                    (\<lambda>x. bind (py_index (d_top d) i)
                       (\<lambda>y. bind (py_index (d_width d) i)
                          (\<lambda>w. bind (py_index (d_height d) i)
                             (\<lambda>h. Inr (Some \<lparr>r_word = word,
                                              r_confidence = format_confidence c,
                                              r_x = x, r_y = y, r_width = w, r_height = h\<rparr>)))))))"

fun results_loop :: "ocr_data \<Rightarrow> nat list \<Rightarrow> table_row list \<Rightarrow> exn + table_row list" where
  "results_loop d [] results = Inr results"
| "results_loop d (i # is) results =
     (case results_row d i of
        Inl e \<Rightarrow> Inl e
      | Inr None \<Rightarrow> results_loop d is results
      | Inr (Some row) \<Rightarrow> results_loop d is (results @ [row]))"

definition create_results_dataframe :: "ocr_data \<Rightarrow> exn + table_row list" where
  "create_results_dataframe d = results_loop d [0..<length (d_text d)] []"


section \<open>ocr_engine.py\<close>

definition custom_config :: "pystr \<Rightarrow> pystr" where
  "custom_config psm_mode = ascii ''--oem '' @ DEFAULT_OEM_MODE @ ascii '' --psm '' @ psm_mode"

definition perform_ocr ::
  "'img engine \<Rightarrow> 'img \<Rightarrow> pystr \<Rightarrow> pystr \<Rightarrow> (exn + pystr) \<times> engine_call list" where
  "perform_ocr E img lang psm_mode =
     (bind (image_to_string E img lang (custom_config psm_mode)) (\<lambda>text. Inr (py_strip text)),
      [ImageToString lang (custom_config psm_mode)])"

definition get_ocr_data ::
  "'img engine \<Rightarrow> 'img \<Rightarrow> pystr \<Rightarrow> pystr \<Rightarrow> (exn + ocr_data) \<times> engine_call list" where
  "get_ocr_data E img lang psm_mode =
     (image_to_data E img lang (custom_config psm_mode),
      [ImageToData lang (custom_config psm_mode)])"

text \<open>
  One pass of the loop body of \<open>draw_bounding_boxes\<close> on the array \<open>cv2_image\<close>, which the
  source mutates in place and the model returns. The \<open>or\<close> of the skip test reads
  \<open>conf[i]\<close> only when the text is not blank.
\<close>

definition draw_word ::
  "('img, 'arr) imaging \<Rightarrow> bool \<Rightarrow> ocr_data \<Rightarrow> 'arr \<Rightarrow> nat \<Rightarrow> exn + 'arr" where
  "draw_word L show_confidence d cv2_image i =
     bind (py_index (d_text d) i)
       (\<lambda>t. if py_strip t = [] then Inr cv2_image
            else bind (py_index (d_conf d) i)
              (\<lambda>conf. if py_int conf = - 1 then Inr cv2_image
                 else bind (py_index (d_left d) i)
                   (\<lambda>x. bind (py_index (d_top d) i)
                      (\<lambda>y. bind (py_index (d_width d) i)
                         (\<lambda>w. bind (py_index (d_height d) i)
                            (\<lambda>h. let color = get_bbox_color conf;
                                     boxed = cv2_rectangle L cv2_image (x, y) (x + w, y + h)
                                               color BBOX_THICKNESS
                                 in if show_confidence
                                    then let label = py_format_f 0 conf @ ascii ''%'';
                                             label_size = cv2_getTextSize L label;
                                             backed = cv2_rectangle L boxed
                                                        (x, y - snd label_size - 4)
                                                        (x + fst label_size, y) color (- 1)
                                         in Inr (cv2_putText L backed label (x, y - 2)
                                                   (255, 255, 255))
                                    else Inr boxed))))))"

fun draw_loop ::
  "('img, 'arr) imaging \<Rightarrow> bool \<Rightarrow> ocr_data \<Rightarrow> nat list \<Rightarrow> 'arr \<Rightarrow> exn + 'arr" where
  "draw_loop L show_confidence d [] cv2_image = Inr cv2_image"
| "draw_loop L show_confidence d (i # is) cv2_image =
     (case draw_word L show_confidence d cv2_image i of
        Inl e \<Rightarrow> Inl e
      | Inr drawn \<Rightarrow> draw_loop L show_confidence d is drawn)"

definition draw_bounding_boxes ::
  "('img, 'arr) imaging \<Rightarrow> 'img \<Rightarrow> ocr_data \<Rightarrow> bool \<Rightarrow> exn + 'img" where
  "draw_bounding_boxes L img d show_confidence =
     bind (pil_convert L (ascii ''RGB'') img)
       (\<lambda>rgb. bind (draw_loop L show_confidence d [0..<length (d_text d)]
                      (np_reverse_channels L (np_array L rgb)))
          (\<lambda>cv2_image. Inr (pil_fromarray L (cv2_cvtColor_BGR2RGB L cv2_image))))"

text \<open>The average computed inline at the end of \<open>process_image_with_ocr\<close>.\<close>

definition inline_average_confidence :: "ocr_data \<Rightarrow> rat" where
  "inline_average_confidence d =
     (let confidences =
            map fst (filter (\<lambda>(conf, txt). py_strip txt \<noteq> [] \<and> py_int conf \<noteq> - 1)
                       (zip (d_conf d) (d_text d)))
      in if confidences = [] then 0
         else sum_list confidences / of_nat (length confidences))"

definition process_image_with_ocr ::
  "'img engine \<Rightarrow> ('img, 'arr) imaging \<Rightarrow> 'img \<Rightarrow> pystr \<Rightarrow> pystr \<Rightarrow> bool \<Rightarrow>
     (exn + 'img \<times> pystr \<times> ocr_data \<times> rat) \<times> engine_call list" where
  "process_image_with_ocr E L img lang psm_mode show_confidence =
     (case get_ocr_data E img lang psm_mode of
        (Inl e, calls) \<Rightarrow> (Inl e, calls)
      | (Inr ocr, calls) \<Rightarrow>
          (case perform_ocr E img lang psm_mode of
             (Inl e, calls') \<Rightarrow> (Inl e, calls @ calls')
           | (Inr text, calls') \<Rightarrow>
               (bind (draw_bounding_boxes L img ocr show_confidence)
                  (\<lambda>bbox_image. Inr (bbox_image, text, ocr, inline_average_confidence ocr)),
                calls @ calls')))"

section \<open>app.py: the request handler\<close>

definition missing_language_message :: "pystr \<Rightarrow> pystr list \<Rightarrow> pystr list \<Rightarrow> pystr" where
  "missing_language_message language missing_langs available_langs =
     MISSING_LANG_TEXT_1 @ language @
     MISSING_LANG_TEXT_2 @ py_join (ascii '', '') missing_langs @
     MISSING_LANG_TEXT_3 @ hd missing_langs @
     MISSING_LANG_TEXT_4 @ py_join (ascii '', '') available_langs @
     MISSING_LANG_TEXT_5"

text \<open>
  The body of the \<open>try\<close> block, with the engine calls made so far. The message is built
  only when \<open>missing_langs\<close> is not empty, so its \<open>missing_langs[0]\<close> exists.
\<close>

definition ocr_interface_try ::
  "'img engine \<Rightarrow> ('img, 'arr) imaging \<Rightarrow> 'img \<Rightarrow> pystr \<Rightarrow> pystr \<Rightarrow> bool \<Rightarrow> bool \<Rightarrow> bool \<Rightarrow> bool \<Rightarrow>
     (exn + 'img option \<times> pystr \<times> pystr \<times> table_row list option) \<times> engine_call list" where
  "ocr_interface_try E L img language psm_mode apply_grayscale apply_contrast
       apply_sharpness apply_denoise =
     (case py_lookup LANGUAGES language of
        Inl e \<Rightarrow> (Inl e, [])
      | Inr lang_code \<Rightarrow>
     (case py_lookup PSM_MODES psm_mode of
        Inl e \<Rightarrow> (Inl e, [])
      | Inr psm_code \<Rightarrow>
     (case get_languages E of
        Inl e \<Rightarrow> (Inl e, [GetLanguages])
      | Inr available_langs \<Rightarrow>
          let required_langs = py_split 43 lang_code;
              missing_langs = filter (\<lambda>lang. lang \<notin> set available_langs) required_langs
          in if missing_langs \<noteq> []
             then (Inr (None, missing_language_message language missing_langs available_langs,
                        [], None),
                   [GetLanguages])
             else
     (case preprocess_image L img apply_grayscale apply_contrast apply_sharpness
             apply_denoise 2 2 of
        Inl e \<Rightarrow> (Inl e, [GetLanguages])
      | Inr processed_image \<Rightarrow>
     (case process_image_with_ocr E L processed_image lang_code psm_code True of
        (Inl e, calls) \<Rightarrow> (Inl e, GetLanguages # calls)
      | (Inr (bbox_image, extracted_text, ocr, avg_confidence), calls) \<Rightarrow>
          let shown_text = (if extracted_text = [] then NO_TEXT_DETECTED else extracted_text);
              confidence_info = AVERAGE_PREFIX @ format_confidence avg_confidence
          in (bind (create_results_dataframe ocr)
                (\<lambda>details_df. Inr (Some bbox_image, shown_text, confidence_info,
                                   Some details_df)),
              GetLanguages # calls))))))"

text \<open>
  \<open>ocr_interface\<close>: the image may be absent (\<open>None\<close>); every exception of the body is
  caught and shown through \<open>exn_text\<close>, which stands for Python's \<open>str(e)\<close>.
\<close>

definition ocr_interface ::
  "'img engine \<Rightarrow> ('img, 'arr) imaging \<Rightarrow> (exn \<Rightarrow> pystr) \<Rightarrow> 'img option \<Rightarrow> pystr \<Rightarrow> pystr \<Rightarrow>
     bool \<Rightarrow> bool \<Rightarrow> bool \<Rightarrow> bool \<Rightarrow>
     ('img option \<times> pystr \<times> pystr \<times> table_row list option) \<times> engine_call list" where
  "ocr_interface E L exn_text img language psm_mode apply_grayscale apply_contrast
       apply_sharpness apply_denoise =
     (case img of
        None \<Rightarrow> ((None, UPLOAD_PROMPT, [], None), [])
      | Some given \<Rightarrow>
          (case ocr_interface_try E L given language psm_mode apply_grayscale apply_contrast
                  apply_sharpness apply_denoise of
             (Inr outputs, calls) \<Rightarrow> (outputs, calls)
           | (Inl e, calls) \<Rightarrow> ((None, ERROR_PREFIX @ exn_text e, [], None), calls)))"

section \<open>The row-oriented view of the result set\<close>

text \<open>
  An OCR result set is a sequence of word records; \<open>columns\<close> is the dict of parallel
  lists that holds it, the shape in which the engine hands it over.
\<close>

record word_record =
  w_text :: pystr
  w_conf :: rat
  w_left :: int
  w_top :: int
  w_width :: int
  w_height :: int

definition columns :: "word_record list \<Rightarrow> ocr_data" where
  "columns rs =
     \<lparr>d_text = map w_text rs, d_conf = map w_conf rs, d_left = map w_left rs,
      d_top = map w_top rs, d_width = map w_width rs, d_height = map w_height rs\<rparr>"

text \<open>The table row that stands for a word record.\<close>

definition table_row_of :: "word_record \<Rightarrow> table_row" where
  "table_row_of r =
     \<lparr>r_word = py_strip (w_text r), r_confidence = format_confidence (w_conf r),
      r_x = w_left r, r_y = w_top r, r_width = w_width r, r_height = w_height r\<rparr>"


section \<open>The filters in their fixed order\<close>

text \<open>
  Running a list of filters from left to right, stopping at the first that fails; and the
  enabled filters of a call in the order denoise, contrast, sharpness, grayscale.
\<close>

fun apply_in_order :: "('a \<Rightarrow> exn + 'a) list \<Rightarrow> 'a \<Rightarrow> exn + 'a" where
  "apply_in_order [] x = Inr x"
| "apply_in_order (f # fs) x = (case f x of Inl e \<Rightarrow> Inl e | Inr y \<Rightarrow> apply_in_order fs y)"

definition enabled_filters ::
  "('img, 'arr) imaging \<Rightarrow> bool \<Rightarrow> bool \<Rightarrow> bool \<Rightarrow> bool \<Rightarrow> rat \<Rightarrow> rat \<Rightarrow> ('img \<Rightarrow> exn + 'img) list" where
  "enabled_filters L apply_grayscale apply_contrast apply_sharpness apply_denoise
       contrast_factor sharpness_factor =
     map snd (filter fst
       [(apply_denoise, denoise_image L),
        (apply_contrast, \<lambda>i. enhance_contrast L i contrast_factor),
        (apply_sharpness, \<lambda>i. enhance_sharpness L i sharpness_factor),
        (apply_grayscale, convert_to_grayscale L)])"

section \<open>Drawing: one record, the contracts of the library, the drawn area\<close>






section \<open>A small library and engine for the examples\<close>

text \<open>
  An image is a mode, a size and a colour for each position; arrays are the same. A
  rectangle paints the box between its corners widened by the thickness, a text paints a
  box of 8 by 12 per character above its origin. The engine knows English only and reads
  \<open>TEST 123\<close> in two words after a structural record.
\<close>

type_synonym sample_image = "pystr \<times> (nat \<times> nat) \<times> (int \<times> int \<Rightarrow> nat \<times> nat \<times> nat)"

definition sample_size :: "sample_image \<Rightarrow> nat \<times> nat" where
  "sample_size a = fst (snd a)"

definition sample_pixel :: "sample_image \<Rightarrow> int \<times> int \<Rightarrow> nat \<times> nat \<times> nat" where
  "sample_pixel a = snd (snd a)"

definition sample_bands :: "sample_image \<Rightarrow> nat" where
  "sample_bands a = (if fst a = ascii ''L'' then 1 else 3)"

definition sample_rect_area :: "int \<times> int \<Rightarrow> int \<times> int \<Rightarrow> int \<Rightarrow> (int \<times> int) set" where
  "sample_rect_area p q t =
     {(x, y). fst p - \<bar>t\<bar> \<le> x \<and> x \<le> fst q + \<bar>t\<bar> \<and> snd p - \<bar>t\<bar> \<le> y \<and> y \<le> snd q + \<bar>t\<bar>}"

definition sample_text_area :: "pystr \<Rightarrow> int \<times> int \<Rightarrow> (int \<times> int) set" where
  "sample_text_area s p =
     {(x, y). fst p \<le> x \<and> x \<le> fst p + 8 * int (length s) \<and> snd p - 12 \<le> y \<and> y \<le> snd p}"

definition sample_paint :: "sample_image \<Rightarrow> (int \<times> int) set \<Rightarrow> nat \<times> nat \<times> nat \<Rightarrow> sample_image" where
  "sample_paint a region c =
     (fst a, sample_size a, \<lambda>xy. if xy \<in> region then c else sample_pixel a xy)"

definition sample_swap :: "sample_image \<Rightarrow> sample_image" where
  "sample_swap a =
     (fst a, sample_size a, \<lambda>xy. case sample_pixel a xy of (r, g, b) \<Rightarrow> (b, g, r))"

definition sample_imaging :: "(sample_image, sample_image) imaging" where
  "sample_imaging =
     \<lparr>pil_convert = (\<lambda>m a. Inr (m, sample_size a,
          if m = ascii ''L'' then (\<lambda>xy. case sample_pixel a xy of (r, g, b) \<Rightarrow> (g, g, g))
          else sample_pixel a)),
      pil_contrast = (\<lambda>a f. Inr a),
      pil_sharpness = (\<lambda>a f. Inr a),
      np_array = (\<lambda>a. a),
      pil_fromarray = (\<lambda>a. a),
      np_reverse_channels = sample_swap,
      cv2_cvtColor_BGR2RGB = sample_swap,
      cv2_fastNlMeansDenoisingColored = (\<lambda>a h hc t s. Inr a),
      cv2_rectangle = (\<lambda>a p q c t. sample_paint a (sample_rect_area p q t) c),
      cv2_getTextSize = (\<lambda>s. (8 * int (length s), 12)),
      cv2_putText = (\<lambda>a s p c. sample_paint a (sample_text_area s p) c)\<rparr>"

definition sample_page :: sample_image where
  "sample_page = (ascii ''RGB'', (200, 60), \<lambda>xy. (255, 255, 255))"

definition sample_words :: "word_record list" where
  "sample_words =
     [\<lparr>w_text = [], w_conf = - 1, w_left = 0, w_top = 0, w_width = 200, w_height = 60\<rparr>,
      \<lparr>w_text = ascii ''TEST'', w_conf = 96, w_left = 10, w_top = 30, w_width = 40,
       w_height = 12\<rparr>,
      \<lparr>w_text = ascii ''123'', w_conf = 45, w_left = 60, w_top = 30, w_width = 30,
       w_height = 12\<rparr>]"

definition sample_engine :: "sample_image engine" where
  "sample_engine =
     \<lparr>get_languages = Inr [ascii ''eng''],
      image_to_string = (\<lambda>i lang config. Inr (ascii ''TEST 123'' @ [10])),
      image_to_data = (\<lambda>i lang config. Inr (columns sample_words))\<rparr>"

section \<open>Rounding and digits\<close>

lemma round_half_even_near:
  assumes "0 \<le> q"
  shows "\<bar>q - of_nat (round_half_even q)\<bar> \<le> 1 / 2"
proof -
  define f where "f = \<lfloor>q\<rfloor>"
  define r where "r = q - of_int f"
  have f0: "0 \<le> f" using assms by (simp add: f_def)
  have r0: "0 \<le> r" and r1: "r < 1"
    unfolding r_def f_def by linarith+
  have q: "q = of_int f + r" by (simp add: r_def)
  have n: "of_nat (nat f) = (of_int f :: rat)" and n1: "of_nat (nat (f + 1)) = (of_int f + 1 :: rat)"
    using f0 by simp_all
  have *: "round_half_even q =
      nat (if r < 1 / 2 then f else if 1 / 2 < r then f + 1 else if even f then f else f + 1)"
    by (simp add: round_half_even_def Let_def f_def r_def)
  show ?thesis
    unfolding * using r0 r1 n n1 by (auto simp: q)
qed

lemma digits_small: "n < 10 \<Longrightarrow> digits n = [48 + n]"
  by (subst digits.simps) simp

lemma digits_large: "\<not> n < 10 \<Longrightarrow> digits n = digits (n div 10) @ [48 + n mod 10]"
  by (subst digits.simps) simp

lemma digits_are_digits: "c \<in> set (digits n) \<Longrightarrow> 48 \<le> c \<and> c \<le> 57"
proof (induction n rule: digits.induct)
  case (1 n)
  show ?case
  proof (cases "n < 10")
    case True
    with "1.prems" show ?thesis by (auto simp: digits_small)
  next
    case False
    have "n mod 10 < 10" by simp
    with False "1.prems" "1.IH" show ?thesis
      by (auto simp: digits_large)
  qed
qed

lemma digits_nonempty: "digits n \<noteq> []"
  by (subst digits.simps) simp

section \<open>Formatting a confidence\<close>

text \<open>
  C3. \<open>format_confidence\<close> returns \<open>N/A\<close> for the sentinel \<open>-1\<close>. For every other value it
  returns an optional minus sign, the decimal digits of an integer part, a point, exactly one
  fractional digit and \<open>%\<close>, where the number printed is within one twentieth of the
  magnitude of the argument. In particular \<open>-1\<close> gives \<open>N/A\<close> and \<open>83.456\<close> gives \<open>83.5%\<close>
  (for the decimal \<open>83.456\<close> and for the binary double nearest to it alike).
\<close>

theorem format_confidence_rendering:
  "format_confidence (- 1) = ascii ''N/A'' \<and>
   format_confidence 83.456 = ascii ''83.5%'' \<and>
   format_confidence (5872693914091127 / 70368744177664) = ascii ''83.5%'' \<and>
   (c \<noteq> - 1 \<longrightarrow>
      (\<exists>k. format_confidence c =
              (if c < 0 then ascii ''-'' else []) @ digits (k div 10) @ ascii ''.'' @
              [48 + k mod 10] @ ascii ''%'' \<and>
            set (digits (k div 10)) \<subseteq> {48..57} \<and> digits (k div 10) \<noteq> [] \<and>
            \<bar>\<bar>c\<bar> * 10 - of_nat k\<bar> \<le> 1 / 2))"
proof -
  have a: "format_confidence (- 1) = ascii ''N/A''"
    by (simp add: format_confidence_def)
  have b: "format_confidence 83.456 = ascii ''83.5%''"
    by code_simp
  have b': "format_confidence (5872693914091127 / 70368744177664) = ascii ''83.5%''"
    by code_simp
  have c: "\<exists>k. format_confidence c =
              (if c < 0 then ascii ''-'' else []) @ digits (k div 10) @ ascii ''.'' @
              [48 + k mod 10] @ ascii ''%'' \<and>
            set (digits (k div 10)) \<subseteq> {48..57} \<and> digits (k div 10) \<noteq> [] \<and>
            \<bar>\<bar>c\<bar> * 10 - of_nat k\<bar> \<le> 1 / 2" if "c \<noteq> - 1"
  proof -
    define k where "k = round_half_even (\<bar>c\<bar> * 10)"
    have near: "\<bar>\<bar>c\<bar> * 10 - of_nat k\<bar> \<le> 1 / 2"
      unfolding k_def by (rule round_half_even_near) simp
    have fmt: "format_confidence c =
              (if c < 0 then ascii ''-'' else []) @ digits (k div 10) @ ascii ''.'' @
              [48 + k mod 10] @ ascii ''%''"
      using that
      by (simp add: format_confidence_def py_format_f_def Let_def k_def ascii_def)
    have ds: "set (digits (k div 10)) \<subseteq> {48..57}"
      using digits_are_digits by fastforce
    from fmt ds near digits_nonempty show ?thesis by blast
  qed
  from a b b' c show ?thesis by blast
qed

theorem format_confidence_rendering_witness:
  "(1 / 4 :: rat) \<noteq> - 1 \<and>
   (\<exists>k. format_confidence (1 / 4) =
          (if (1 / 4 :: rat) < 0 then ascii ''-'' else []) @ digits (k div 10) @ ascii ''.'' @
          [48 + k mod 10] @ ascii ''%'' \<and>
        set (digits (k div 10)) \<subseteq> {48..57} \<and> digits (k div 10) \<noteq> [] \<and>
        \<bar>\<bar>1 / 4 :: rat\<bar> * 10 - of_nat k\<bar> \<le> 1 / 2)"
proof -
  have ne: "(1 / 4 :: rat) \<noteq> - 1" by simp
  with format_confidence_rendering [of "1 / 4"] show ?thesis by blast
qed

section \<open>Confidence tiers\<close>

text \<open>
  C4. The colour of a box depends only on the confidence and the two thresholds: at least 80
  gives the high-tier colour, at least 50 and below 80 the medium-tier colour, below 50 the
  low-tier colour, and the three colours differ. In particular 80 is high, 79.9 and 50 are
  medium, 49.9 is low.
\<close>

theorem get_bbox_color_tiers:
  "(80 \<le> c \<longrightarrow> get_bbox_color c = BBOX_COLOR_HIGH_CONF) \<and>
   (50 \<le> c \<and> c < 80 \<longrightarrow> get_bbox_color c = BBOX_COLOR_MEDIUM_CONF) \<and>
   (c < 50 \<longrightarrow> get_bbox_color c = BBOX_COLOR_LOW_CONF) \<and>
   get_bbox_color 80 = BBOX_COLOR_HIGH_CONF \<and>
   get_bbox_color 79.9 = BBOX_COLOR_MEDIUM_CONF \<and>
   get_bbox_color 50 = BBOX_COLOR_MEDIUM_CONF \<and>
   get_bbox_color 49.9 = BBOX_COLOR_LOW_CONF \<and>
   distinct [BBOX_COLOR_HIGH_CONF, BBOX_COLOR_MEDIUM_CONF, BBOX_COLOR_LOW_CONF]"
  by (simp add: get_bbox_color_def CONFIDENCE_THRESHOLD_HIGH_def CONFIDENCE_THRESHOLD_MEDIUM_def
      BBOX_COLOR_HIGH_CONF_def BBOX_COLOR_MEDIUM_CONF_def BBOX_COLOR_LOW_CONF_def)

theorem get_bbox_color_tiers_witness:
  "(80 :: rat) \<le> 92 \<and> get_bbox_color 92 = (0, 255, 0) \<and>
   (50 :: rat) \<le> 65 \<and> (65 :: rat) < 80 \<and> get_bbox_color 65 = (0, 165, 255) \<and>
   (12 :: rat) < 50 \<and> get_bbox_color 12 = (0, 0, 255)"
  using get_bbox_color_tiers [of 92] get_bbox_color_tiers [of 65] get_bbox_color_tiers [of 12]
  by (simp add: BBOX_COLOR_HIGH_CONF_def BBOX_COLOR_MEDIUM_CONF_def BBOX_COLOR_LOW_CONF_def)

section \<open>Indexing the columns of a result set\<close>

lemma bind_Inr [simp]: "bind (Inr v) f = f v"
  by (simp add: bind_def)

lemma bind_Inl [simp]: "bind (Inl e) f = Inl e"
  by (simp add: bind_def)

lemma py_index_map [simp]: "i < length xs \<Longrightarrow> py_index (map f xs) i = Inr (f (xs ! i))"
  by (simp add: py_index_def)

lemma columns_sel [simp]:
  "d_text (columns rs) = map w_text rs"
  "d_conf (columns rs) = map w_conf rs"
  "d_left (columns rs) = map w_left rs"
  "d_top (columns rs) = map w_top rs"
  "d_width (columns rs) = map w_width rs"
  "d_height (columns rs) = map w_height rs"
  by (simp_all add: columns_def)

lemma zip_columns:
  "zip (d_conf (columns rs)) (d_text (columns rs)) = map (\<lambda>r. (w_conf r, w_text r)) rs"
  by (induction rs) simp_all

section \<open>The sentinel test\<close>


section \<open>The result table\<close>

lemma results_row_columns:
  assumes "i < length rs"
  shows "results_row (columns rs) i =
           Inr (if py_strip (w_text (rs ! i)) = [] then None else Some (table_row_of (rs ! i)))"
  using assms by (simp add: results_row_def table_row_of_def Let_def)

lemma results_loop_columns:
  assumes "\<forall>i\<in>set is. i < length rs"
  shows "results_loop (columns rs) is acc =
           Inr (acc @ map table_row_of
                        (filter (\<lambda>r. py_strip (w_text r) \<noteq> []) (map (\<lambda>i. rs ! i) is)))"
  using assms
proof (induction "is" arbitrary: acc)
  case Nil
  then show ?case by simp
next
  case (Cons i "is")
  then have i: "i < length rs" and rest: "\<forall>j\<in>set is. j < length rs"
    by simp_all
  show ?case
    by (simp add: results_row_columns [OF i] Cons.IH [OF rest])
qed

text \<open>
  C7. For every result set, the table has one row per record whose trimmed text is not
  empty, in the order of the result set; a row holds the trimmed text, the formatted
  confidence, and the left, top, width and height of the record. Records with empty or
  blank text give no row, so the number of rows is the number of records with non-empty
  trimmed text, and no row has an empty word.
\<close>

theorem create_results_dataframe_rows:
  "create_results_dataframe (columns rs) =
     Inr (map table_row_of (filter (\<lambda>r. py_strip (w_text r) \<noteq> []) rs)) \<and>
   (\<exists>rows. create_results_dataframe (columns rs) = Inr rows \<and>
       length rows = length (filter (\<lambda>r. py_strip (w_text r) \<noteq> []) rs) \<and>
       [] \<notin> set (map r_word rows))"
proof -
  have "\<forall>i\<in>set [0..<length rs]. i < length rs" by simp
  then have "results_loop (columns rs) [0..<length rs] [] =
      Inr ([] @ map table_row_of
        (filter (\<lambda>r. py_strip (w_text r) \<noteq> []) (map (\<lambda>i. rs ! i) [0..<length rs])))"
    by (rule results_loop_columns)
  then have eq: "create_results_dataframe (columns rs) =
      Inr (map table_row_of (filter (\<lambda>r. py_strip (w_text r) \<noteq> []) rs))"
    by (simp add: create_results_dataframe_def map_nth)
  define rows where "rows = map table_row_of (filter (\<lambda>r. py_strip (w_text r) \<noteq> []) rs)"
  have len: "length rows = length (filter (\<lambda>r. py_strip (w_text r) \<noteq> []) rs)"
    by (simp add: rows_def)
  have ne: "[] \<notin> set (map r_word rows)"
    by (auto simp: rows_def table_row_of_def)
  from eq len ne show ?thesis
    unfolding rows_def by blast
qed

section \<open>The two averages\<close>




section \<open>Preprocessing\<close>

text \<open>
  C5. With the four flags off, \<open>preprocess_image\<close> returns the input image itself, for every
  image, library and pair of factors. Each filter passes the image through when its flag is
  off: with a single flag on, the result is that of the one enabled filter applied to the
  input; and whatever the other flags are, the result with a flag off does not depend on the
  library operation of that filter (non-local-means denoising, contrast enhancement,
  sharpness enhancement, conversion to mode \<open>L\<close>), which is never called.
\<close>

theorem preprocess_image_flags_off:
  "preprocess_image L img False False False False cf sf = Inr img \<and>
   preprocess_image L img False False False True cf sf = denoise_image L img \<and>
   preprocess_image L img False True False False cf sf = enhance_contrast L img cf \<and>
   preprocess_image L img False False True False cf sf = enhance_sharpness L img sf \<and>
   preprocess_image L img True False False False cf sf = convert_to_grayscale L img \<and>
   preprocess_image (L\<lparr>cv2_fastNlMeansDenoisingColored := f\<rparr>) img gs ct sh False cf sf =
     preprocess_image L img gs ct sh False cf sf \<and>
   preprocess_image (L\<lparr>pil_contrast := g\<rparr>) img gs False sh dn cf sf =
     preprocess_image L img gs False sh dn cf sf \<and>
   preprocess_image (L\<lparr>pil_sharpness := h\<rparr>) img gs ct False dn cf sf =
     preprocess_image L img gs ct False dn cf sf \<and>
   preprocess_image (L\<lparr>pil_convert := \<lambda>m. if m = ascii ''L'' then k else pil_convert L m\<rparr>)
       img False ct sh dn cf sf =
     preprocess_image L img False ct sh dn cf sf"
proof -
  have unit: "bind r Inr = r" for r :: "exn + 'a"
    by (cases r) simp_all
  have rgb: "ascii ''RGB'' \<noteq> ascii ''L''"
    by (simp add: ascii_def)
  show ?thesis
    by (simp add: preprocess_image_def denoise_image_def pil_to_cv2_def cv2_to_pil_def
        enhance_contrast_def enhance_sharpness_def convert_to_grayscale_def unit rgb)
qed

text \<open>
  C6. For every image and every combination of flags, \<open>preprocess_image\<close> runs the enabled
  filters in the order denoise, contrast, sharpness, grayscale. With the grayscale flag on,
  grayscale conversion is the last step, applied to the result of the other enabled
  filters; so whenever preprocessing returns an image, that image has a single band, given
  that the library's conversion to mode \<open>L\<close> returns single-band images.
\<close>

theorem preprocess_image_order:
  "preprocess_image L img gs ct sh dn cf sf =
     apply_in_order (enabled_filters L gs ct sh dn cf sf) img \<and>
   enabled_filters L True True True True cf sf =
     [denoise_image L, \<lambda>i. enhance_contrast L i cf, \<lambda>i. enhance_sharpness L i sf,
      convert_to_grayscale L] \<and>
   preprocess_image L img True ct sh dn cf sf =
     bind (preprocess_image L img False ct sh dn cf sf) (convert_to_grayscale L) \<and>
   ((\<forall>i out. pil_convert L (ascii ''L'') i = Inr out \<longrightarrow> bands out = (1 :: nat)) \<longrightarrow>
    preprocess_image L img True ct sh dn cf sf = Inr res \<longrightarrow> bands res = 1)"
proof -
  have order: "preprocess_image L img gs ct sh dn cf sf =
      apply_in_order (enabled_filters L gs ct sh dn cf sf) img"
    by (cases gs; cases ct; cases sh; cases dn)
      (simp_all add: preprocess_image_def enabled_filters_def bind_def split: sum.splits)
  have all: "enabled_filters L True True True True cf sf =
     [denoise_image L, \<lambda>i. enhance_contrast L i cf, \<lambda>i. enhance_sharpness L i sf,
      convert_to_grayscale L]"
    by (simp add: enabled_filters_def)
  have last: "preprocess_image L img True ct sh dn cf sf =
      bind (preprocess_image L img False ct sh dn cf sf) (convert_to_grayscale L)"
    by (simp add: preprocess_image_def bind_def split: sum.splits)
  have single: "bands res = (1 :: nat)"
    if lib: "\<forall>i out. pil_convert L (ascii ''L'') i = Inr out \<longrightarrow> bands out = 1"
      and run: "preprocess_image L img True ct sh dn cf sf = Inr res"
  proof -
    from run last obtain p where "convert_to_grayscale L p = Inr res"
      by (cases "preprocess_image L img False ct sh dn cf sf") simp_all
    with lib show ?thesis by (simp add: convert_to_grayscale_def)
  qed
  from order all last single show ?thesis by blast
qed

theorem preprocess_image_order_witness:
  "\<exists>res. preprocess_image sample_imaging sample_page True True False True 2 2 = Inr res \<and>
      sample_bands res = 1"
proof -
  have lib: "\<forall>i out. pil_convert sample_imaging (ascii ''L'') i = Inr out \<longrightarrow> sample_bands out = 1"
    by (auto simp: sample_imaging_def sample_bands_def)
  obtain res where run: "preprocess_image sample_imaging sample_page True True False True 2 2 = Inr res"
    by (simp add: preprocess_image_def denoise_image_def pil_to_cv2_def cv2_to_pil_def
        enhance_contrast_def convert_to_grayscale_def sample_imaging_def)
  from preprocess_image_order [of sample_imaging sample_page True True False True 2 2 sample_bands res]
    lib run
  have "sample_bands res = 1" by blast
  with run show ?thesis by blast
qed

section \<open>The request handler\<close>

text \<open>
  C9. When no image is given, the handler returns no rendered image, no table, an empty
  confidence line and, as its text, the (non-empty) prompt to upload an image; it makes no
  engine call, whatever the other inputs, the engine and the libraries are.
\<close>

theorem ocr_interface_empty_input:
  "ocr_interface E L exn_text None language psm_mode gs ct sh dn =
     ((None, UPLOAD_PROMPT, [], None), []) \<and>
   UPLOAD_PROMPT \<noteq> []"
  by (simp add: ocr_interface_def UPLOAD_PROMPT_def)

lemma sublist_middle: "sublist m x \<Longrightarrow> sublist m (pre @ x @ post)"
proof -
  assume "sublist m x"
  then obtain ps ss where "x = ps @ m @ ss"
    by (auto simp: sublist_def)
  then have "pre @ x @ post = (pre @ ps) @ m @ (ss @ post)" by simp
  then show ?thesis
    unfolding sublist_def by blast
qed

lemma sublist_py_join:
  "m \<in> set ms \<Longrightarrow> sublist m (py_join sep ms)"
proof (induction sep ms rule: py_join.induct)
  case (1 sep)
  then show ?case by simp
next
  case (2 sep s)
  then show ?case by simp
next
  case (3 sep s t ts)
  show ?case
  proof (cases "m = s")
    case True
    then show ?thesis by simp
  next
    case False
    with "3.prems" have "m \<in> set (t # ts)" by simp
    then have "sublist m (py_join sep (t # ts))" by (rule "3.IH")
    then have "sublist m ((s @ sep) @ py_join sep (t # ts) @ [])"
      by (rule sublist_middle)
    then show ?thesis by simp
  qed
qed

text \<open>
  C2. Let the language selection be a label of the language table, the segmentation mode a
  label of the mode table, an image be given and the engine report its installed languages.
  If some identifier of the wire code, split at \<open>+\<close>, is not installed, the handler
  returns the missing-language message with no image and no table, having called the
  engine for the list of languages only: neither recognition call is made. The message
  contains the missing codes joined by commas and the installed languages joined by commas,
  hence every missing code and every installed language.
\<close>

theorem ocr_interface_missing_language:
  assumes "py_lookup LANGUAGES language = Inr lang_code"
    and "py_lookup PSM_MODES psm_mode = Inr psm_code"
    and "get_languages E = Inr available"
    and "missing = filter (\<lambda>lang. lang \<notin> set available) (py_split 43 lang_code)"
    and "missing \<noteq> []"
  shows "ocr_interface E L exn_text (Some img) language psm_mode gs ct sh dn =
           ((None, missing_language_message language missing available, [], None),
            [GetLanguages]) \<and>
         (\<exists>pre mid post. missing_language_message language missing available =
            pre @ py_join (ascii '', '') missing @ mid @ py_join (ascii '', '') available @ post) \<and>
         (\<forall>m\<in>set missing. sublist m (missing_language_message language missing available)) \<and>
         (\<forall>a\<in>set available. sublist a (missing_language_message language missing available))"
proof -
  let ?msg = "missing_language_message language missing available"
  have run: "ocr_interface E L exn_text (Some img) language psm_mode gs ct sh dn =
      ((None, ?msg, [], None), [GetLanguages])"
    using assms by (simp add: ocr_interface_def ocr_interface_try_def Let_def)
  have shape: "?msg =
      (MISSING_LANG_TEXT_1 @ language @ MISSING_LANG_TEXT_2) @ py_join (ascii '', '') missing @
      (MISSING_LANG_TEXT_3 @ hd missing @ MISSING_LANG_TEXT_4) @
      py_join (ascii '', '') available @ MISSING_LANG_TEXT_5"
    by (simp add: missing_language_message_def)
  have named: "sublist m ?msg" if "m \<in> set missing" for m
  proof -
    from that have "sublist m (py_join (ascii '', '') missing)" by (rule sublist_py_join)
    then show ?thesis
      unfolding shape by (rule sublist_middle)
  qed
  have listed: "sublist a ?msg" if "a \<in> set available" for a
  proof -
    from that have "sublist a (py_join (ascii '', '') available)" by (rule sublist_py_join)
    then have "sublist a (((MISSING_LANG_TEXT_1 @ language @ MISSING_LANG_TEXT_2) @
        py_join (ascii '', '') missing @ (MISSING_LANG_TEXT_3 @ hd missing @ MISSING_LANG_TEXT_4)) @
        py_join (ascii '', '') available @ MISSING_LANG_TEXT_5)"
      by (rule sublist_middle)
    then show ?thesis by (simp add: shape)
  qed
  from run shape named listed show ?thesis by blast
qed

text \<open>
  The scenario of C2: Japanese is requested, only English is installed. The answer is the
  message built from the missing list \<open>[jpn]\<close> and the installed list \<open>[eng]\<close>, after
  the one call that lists the languages.
\<close>

theorem ocr_interface_missing_language_witness:
  "ocr_interface sample_engine sample_imaging (\<lambda>e. []) (Some sample_page) LABEL_JAPANESE
     LABEL_PSM_3 False False False False =
     ((None, missing_language_message LABEL_JAPANESE [ascii ''jpn''] [ascii ''eng''], [], None),
      [GetLanguages]) \<and>
   sublist (ascii ''jpn'')
     (missing_language_message LABEL_JAPANESE [ascii ''jpn''] [ascii ''eng'']) \<and>
   sublist (ascii ''eng'')
     (missing_language_message LABEL_JAPANESE [ascii ''jpn''] [ascii ''eng''])"
proof -
  have lang: "py_lookup LANGUAGES LABEL_JAPANESE = Inr (ascii ''jpn'')"
    by (simp add: py_lookup_def LANGUAGES_def)
  have psm: "py_lookup PSM_MODES LABEL_PSM_3 = Inr (ascii ''3'')"
    by (simp add: py_lookup_def PSM_MODES_def)
  have avail: "get_languages sample_engine = Inr [ascii ''eng'']"
    by (simp add: sample_engine_def)
  have missing: "[ascii ''jpn''] =
      filter (\<lambda>lang. lang \<notin> set [ascii ''eng'']) (py_split 43 (ascii ''jpn''))"
    by (simp add: ascii_def)
  have ne: "[ascii ''jpn''] \<noteq> []" by simp
  from ocr_interface_missing_language [OF lang psm avail missing ne,
      of sample_imaging "\<lambda>e. []" sample_page False False False False]
  show ?thesis by simp
qed

section \<open>The drawing loop\<close>












section \<open>The average confidence of a request\<close>




end
